theory Spec2Isabelle
  imports Main
begin

section \<open>Python string operations used by \<open>mousebender/simple.py\<close>\<close>

text \<open>
  The module \<open>mousebender/simple.py\<close> builds project URLs and parses the two HTML
  pages of the Simple Repository API: the index of projects and the list of files of
  one project. This theory embeds its functions and proves what they return.

  Python strings are modelled as \<^typ>\<open>string\<close>. The built-in string methods the
  module calls (\<open>endswith\<close>, \<open>lower\<close>, \<open>split(sep, 1)\<close>, \<open>partition\<close>,
  \<open>rpartition\<close>) are written out here; every separator the module passes is a
  single character.
\<close>

definition endswith :: "string \<Rightarrow> string \<Rightarrow> bool" where
  "endswith s suffix =
     (length suffix \<le> length s \<and> drop (length s - length suffix) s = suffix)"

definition lower_char :: "char \<Rightarrow> char" where
  \<comment> \<open>\<open>str.lower\<close> on one character: the letters \<open>A\<close>..\<open>Z\<close>. The model leaves
      every byte outside ASCII as it is; Python also lowercases the cased letters
      beyond ASCII.\<close>
  "lower_char c =
     (case map_of (zip ''ABCDEFGHIJKLMNOPQRSTUVWXYZ'' ''abcdefghijklmnopqrstuvwxyz'') c of
        None \<Rightarrow> c
      | Some l \<Rightarrow> l)"

definition lower :: "string \<Rightarrow> string" where
  "lower s = map lower_char s"

fun find_char :: "char \<Rightarrow> string \<Rightarrow> nat option" where
  \<comment> \<open>\<open>s.find(sep)\<close>: the index of the first occurrence, \<open>None\<close> for Python's \<open>-1\<close>.\<close>
  "find_char sep [] = None"
| "find_char sep (c # cs) =
     (if c = sep then Some 0
      else case find_char sep cs of None \<Rightarrow> None | Some i \<Rightarrow> Some (Suc i))"

fun rfind_char :: "char \<Rightarrow> string \<Rightarrow> nat option" where
  \<comment> \<open>\<open>s.rfind(sep)\<close>: the index of the last occurrence.\<close>
  "rfind_char sep [] = None"
| "rfind_char sep (c # cs) =
     (case rfind_char sep cs of
        Some i \<Rightarrow> Some (Suc i)
      | None \<Rightarrow> if c = sep then Some 0 else None)"

definition split_once :: "char \<Rightarrow> string \<Rightarrow> string list" where
  \<comment> \<open>\<open>s.split(sep, 1)\<close>: at most one split, at the first separator.\<close>
  "split_once sep s =
     (case find_char sep s of
        None \<Rightarrow> [s]
      | Some i \<Rightarrow> [take i s, drop (Suc i) s])"

definition partition_str :: "char \<Rightarrow> string \<Rightarrow> string \<times> string \<times> string" where
  \<comment> \<open>\<open>s.partition(sep)\<close>: without a separator the whole string comes first.\<close>
  "partition_str sep s =
     (case find_char sep s of
        None \<Rightarrow> (s, [], [])
      | Some i \<Rightarrow> (take i s, [sep], drop (Suc i) s))"

definition rpartition :: "char \<Rightarrow> string \<Rightarrow> string \<times> string \<times> string" where
  \<comment> \<open>\<open>s.rpartition(sep)\<close>: without a separator the whole string comes last.\<close>
  "rpartition sep s =
     (case rfind_char sep s of
        None \<Rightarrow> ([], [], s)
      | Some i \<Rightarrow> (take i s, [sep], drop (Suc i) s))"

section \<open>Project names and project URLs\<close>

definition is_separator :: "char \<Rightarrow> bool" where
  "is_separator c = (c = CHR ''-'' \<or> c = CHR ''_'' \<or> c = CHR ''.'')"

primrec canonicalize_regex_sub :: "bool \<Rightarrow> string \<Rightarrow> string" where
  \<comment> \<open>Replaces every maximal run of \<open>-\<close>, \<open>_\<close>, \<open>.\<close> by one \<open>-\<close>; the flag says
      that the previous character belonged to a run.\<close>
  "canonicalize_regex_sub in_run [] = []"
| "canonicalize_regex_sub in_run (c # cs) =
     (if is_separator c
      then (if in_run then canonicalize_regex_sub True cs
            else CHR ''-'' # canonicalize_regex_sub True cs)
      else c # canonicalize_regex_sub False cs)"

definition canonicalize_name :: "string \<Rightarrow> string" where
  \<comment> \<open>Modelled from the spec: \<open>packaging.utils.canonicalize_name\<close> belongs to the
      \<open>packaging\<close> distribution and is not part of this repository. The spec
      gives its rule: lowercase, runs of \<open>.\<close>, \<open>-\<close>, \<open>_\<close> collapsed to a single
      \<open>-\<close>.\<close>
  "canonicalize_name name = lower (canonicalize_regex_sub False name)"

definition create_project_url :: "string \<Rightarrow> string \<Rightarrow> string" where
  "create_project_url base_url project_name =
     (let base_url = (if base_url \<noteq> [] \<and> \<not> endswith base_url ''/''
                      then base_url @ ''/'' else base_url)
      in concat [base_url, canonicalize_name project_name, ''/''])"

definition exactly_one_trailing_slash :: "string \<Rightarrow> bool" where
  \<comment> \<open>The spec's words for the normalised base: it ends with one \<open>/\<close> and not
      with two.\<close>
  "exactly_one_trailing_slash s = (endswith s ''/'' \<and> \<not> endswith s ''//'')"

section \<open>What the parsers take from outside the module\<close>

datatype error = ValueError

record parse_result =
  scheme :: string
  netloc :: string
  path :: string
  params :: string
  query :: string
  fragment :: string

text \<open>
  The module calls four functions of Python's standard library on strings:
  \<open>urllib.parse.urlparse\<close>, \<open>urllib.parse.urlunparse\<close>, \<open>urllib.parse.unquote\<close>
  and \<open>html.unescape\<close>. They are not part of this repository, so the parsers take
  them as a parameter. \<open>urlparse\<close> may raise \<open>ValueError\<close>; the other three
  return a string for every string.
\<close>

record stdlib =
  urlparse :: "string \<Rightarrow> error + parse_result"
  urlunparse :: "parse_result \<Rightarrow> string"
  unquote :: "string \<Rightarrow> string"
  unescape :: "string \<Rightarrow> string"

type_synonym attrs_list = "(string \<times> string option) list"

text \<open>
  \<open>html.parser.HTMLParser.feed\<close> tokenizes the document and calls one handler per
  token, in document order. A document is modelled by the sequence of these calls.
  An attribute without a value has the value \<open>None\<close>; an empty element
  \<open><a ... />\<close> is a start tag followed by an end tag.
\<close>

datatype event =
    StartTag string attrs_list
  | EndTag string
  | Data string
  | Comment string
  | Decl string
  | Pi string

definition dict_of :: "attrs_list \<Rightarrow> (string \<rightharpoonup> string option)" where
  \<comment> \<open>\<open>dict(attrs_list)\<close>: of two pairs with one key the later one stays.\<close>
  "dict_of attrs_list = map_of (rev attrs_list)"

section \<open>The data model\<close>

record meta_1_0 =
  api_version :: string

record project =
  project_name :: string


datatype bool_or_str = Bool bool | Str string

datatype bool_or_hashes = Flag bool | Hashes "string \<rightharpoonup> string"

record project_file_details_1_0 =
  filename :: string
  url :: string
  hashes :: "string \<rightharpoonup> string"
  requires_python :: "string option"
  dist_info_metadata :: "bool_or_hashes option"
  gpg_sig :: "bool option"
  yanked :: "bool_or_str option"

record project_details_1_0 =
  meta :: meta_1_0
  name :: string
  files :: "project_file_details_1_0 list"

section \<open>The parser of the repository index page\<close>









section \<open>The parser of a project details page\<close>

text \<open>
  \<open>args\<close>, the dictionary the start-tag handler builds for one anchor: the keys
  \<open>filename\<close> and \<open>url\<close> are always set, the others only on the paths that set
  them.
\<close>

record archive_link =
  link_filename :: string
  link_url :: string
  link_hashes :: "(string \<times> string) option"
  link_requires_python :: "string option"
  link_gpg_sig :: "bool option"
  link_yanked :: "bool_or_str option"
  link_metadata :: "(string \<times> string) option"

definition archive_handle_starttag ::
  "stdlib \<Rightarrow> string \<Rightarrow> attrs_list \<Rightarrow> archive_link list \<Rightarrow> error + archive_link list" where
  "archive_handle_starttag L tag attrs_list archive_links =
     (let attrs = dict_of attrs_list in
      if tag \<noteq> ''a'' then Inr archive_links
      else
       (case attrs ''href'' of
          None \<Rightarrow> Inr archive_links
        | Some None \<Rightarrow> Inr archive_links
        | Some (Some full_url) \<Rightarrow>
           (if full_url = [] then Inr archive_links
            else
             (case urlparse L full_url of
                Inl e \<Rightarrow> Inl e
              | Inr parsed_url \<Rightarrow>
                 (let raw_filename = snd (snd (rpartition CHR ''/'' (path parsed_url)));
                      args = \<lparr>link_filename = unquote L raw_filename,
                              link_url = urlunparse L (parsed_url\<lparr>fragment := []\<rparr>),
                              link_hashes = None, link_requires_python = None,
                              link_gpg_sig = None, link_yanked = None, link_metadata = None\<rparr>
                  in
                   (case (if fragment parsed_url \<noteq> []
                          then (case split_once CHR ''='' (fragment parsed_url) of
                                  [hash_algo, hash_value] \<Rightarrow>
                                    Inr (args\<lparr>link_hashes := Some (lower hash_algo, hash_value)\<rparr>)
                                | _ \<Rightarrow> Inl ValueError)
                          else Inr args) of
                      Inl e \<Rightarrow> Inl e
                    | Inr args \<Rightarrow>
                       (let args =
                              (case attrs ''data-requires-python'' of
                                 Some (Some v) \<Rightarrow>
                                   (if v \<noteq> []
                                    then args\<lparr>link_requires_python := Some (unescape L v)\<rparr>
                                    else args)
                               | _ \<Rightarrow> args);
                            args =
                              (case attrs ''data-gpg-sig'' of
                                 Some v \<Rightarrow> args\<lparr>link_gpg_sig := Some (v = Some ''true'')\<rparr>
                               | None \<Rightarrow> args);
                            args =
                              (case attrs ''data-yanked'' of
                                 Some v \<Rightarrow>
                                   args\<lparr>link_yanked :=
                                     Some (case v of
                                             Some reason \<Rightarrow>
                                               (if reason \<noteq> [] then Str reason else Bool True)
                                           | None \<Rightarrow> Bool True)\<rparr>
                               | None \<Rightarrow> args);
                            args =
                              (case attrs ''data-dist-info-metadata'' of
                                 Some found_metadata \<Rightarrow>
                                   args\<lparr>link_metadata :=
                                     Some (case found_metadata of
                                             Some m \<Rightarrow>
                                               (if m \<noteq> [] \<and> m \<noteq> ''true''
                                                then (case partition_str CHR ''='' m of
                                                        (algorithm, _, hash) \<Rightarrow>
                                                          (lower algorithm, hash))
                                                else ([], []))
                                           | None \<Rightarrow> ([], []))\<rparr>
                               | None \<Rightarrow> args)
                        in Inr (archive_links @ [args]))))))))"

fun archive_handle :: "stdlib \<Rightarrow> event \<Rightarrow> archive_link list \<Rightarrow> error + archive_link list" where
  "archive_handle L (StartTag tag attrs_list) archive_links =
     archive_handle_starttag L tag attrs_list archive_links"
| "archive_handle L _ archive_links = Inr archive_links"

fun archive_feed :: "stdlib \<Rightarrow> event list \<Rightarrow> archive_link list \<Rightarrow> error + archive_link list" where
  "archive_feed L [] archive_links = Inr archive_links"
| "archive_feed L (ev # evs) archive_links =
     (case archive_handle L ev archive_links of
        Inl e \<Rightarrow> Inl e
      | Inr archive_links' \<Rightarrow> archive_feed L evs archive_links')"

definition file_details :: "archive_link \<Rightarrow> project_file_details_1_0" where
  \<comment> \<open>The body of the loop over \<open>parser.archive_links\<close>.\<close>
  "file_details archive_link =
     (let details = \<lparr>filename = link_filename archive_link, url = link_url archive_link,
                      hashes = Map.empty, requires_python = None, dist_info_metadata = None,
                      gpg_sig = None, yanked = None\<rparr>;
          details = (case link_hashes archive_link of
                       Some (k, v) \<Rightarrow> details\<lparr>hashes := [k \<mapsto> v]\<rparr>
                     | None \<Rightarrow> details);
          details = (case link_metadata archive_link of
                       Some (algorithm, val) \<Rightarrow>
                         if algorithm \<noteq> []
                         then details\<lparr>dist_info_metadata := Some (Hashes [algorithm \<mapsto> val])\<rparr>
                         else details\<lparr>dist_info_metadata := Some (Flag True)\<rparr>
                     | None \<Rightarrow> details)
      in details\<lparr>requires_python := link_requires_python archive_link,
                 yanked := link_yanked archive_link,
                 gpg_sig := link_gpg_sig archive_link\<rparr>)"

definition from_project_details_html ::
  "stdlib \<Rightarrow> string \<Rightarrow> event list \<Rightarrow> error + project_details_1_0" where
  "from_project_details_html L nm html =
     (case archive_feed L html [] of
        Inl e \<Rightarrow> Inl e
      | Inr archive_links \<Rightarrow>
          Inr \<lparr>meta = \<lparr>api_version = ''1.0''\<rparr>,
               name = canonicalize_name nm,
               files = map file_details archive_links\<rparr>)"

section \<open>A reference model of the standard-library functions\<close>

text \<open>
  The examples of the specification are evaluated with the following model of the
  four library functions. Strings are read as UTF-8, one \<^typ>\<open>char\<close> per byte, so
  that the delimiters \<open>:\<close>, \<open>/\<close>, \<open>?\<close>, \<open>#\<close>, \<open>;\<close>, \<open>=\<close>, \<open>%\<close> and \<open>&\<close> are
  single characters.
\<close>

definition split_first :: "char \<Rightarrow> string \<Rightarrow> string \<times> string" where
  \<comment> \<open>\<open>if sep in s: a, b = s.split(sep, 1)\<close>, and \<open>(s, '')\<close> otherwise.\<close>
  "split_first sep s =
     (case find_char sep s of
        None \<Rightarrow> (s, [])
      | Some i \<Rightarrow> (take i s, drop (Suc i) s))"

definition ascii_letters :: string where
  "ascii_letters = ''abcdefghijklmnopqrstuvwxyzABCDEFGHIJKLMNOPQRSTUVWXYZ''"

definition scheme_chars :: string where
  "scheme_chars = ascii_letters @ ''0123456789+-.''"

definition uses_netloc :: "string list" where
  "uses_netloc = ['''', ''ftp'', ''http'', ''gopher'', ''nntp'', ''telnet'', ''imap'', ''wais'',
     ''file'', ''mms'', ''https'', ''shttp'', ''snews'', ''prospero'', ''rtsp'', ''rtspu'',
     ''rsync'', ''svn'', ''svn+ssh'', ''sftp'', ''nfs'', ''git'', ''git+ssh'', ''ws'', ''wss'']"

definition uses_params :: "string list" where
  "uses_params = ['''', ''ftp'', ''hdl'', ''prospero'', ''http'', ''imap'', ''https'', ''shttp'',
     ''rtsp'', ''rtspu'', ''sip'', ''sips'', ''mms'', ''sftp'', ''tel'']"

definition split_scheme :: "string \<Rightarrow> string \<times> string" where
  "split_scheme u =
     (case find_char CHR '':'' u of
        None \<Rightarrow> ([], u)
      | Some i \<Rightarrow>
          if 0 < i \<and> hd u \<in> set ascii_letters
             \<and> list_all (\<lambda>c. c \<in> set scheme_chars) (take i u)
          then (lower (take i u), drop (Suc i) u)
          else ([], u))"

definition split_netloc :: "string \<Rightarrow> string \<times> string" where
  "split_netloc u =
     (if take 2 u = ''//''
      then (takeWhile (\<lambda>c. c \<notin> set ''/?#'') (drop 2 u),
            dropWhile (\<lambda>c. c \<notin> set ''/?#'') (drop 2 u))
      else ([], u))"

definition split_params :: "string \<Rightarrow> string \<times> string" where
  "split_params u =
     (case rfind_char CHR ''/'' u of
        None \<Rightarrow> split_first CHR '';'' u
      | Some j \<Rightarrow>
          (case find_char CHR '';'' (drop j u) of
             None \<Rightarrow> (u, [])
           | Some k \<Rightarrow> (take (j + k) u, drop (Suc (j + k)) u)))"

definition py_urlparse :: "string \<Rightarrow> error + parse_result" where
  \<comment> \<open>Modelled from the spec: \<open>urllib.parse.urlparse\<close> belongs to Python's standard
      library, not to this repository. The spec says that the href is parsed as a
      URL into scheme, authority, path and query, the fragment being everything
      after \<open>#\<close>. The model follows the library's order of splitting (scheme,
      authority, fragment, query, parameters) and its \<open>ValueError\<close> for an
      authority with one unmatched square bracket; it leaves out the removal of
      control characters and whitespace and the validation of bracketed hosts.\<close>
  "py_urlparse u =
     (case split_scheme u of (sch, u) \<Rightarrow>
      case split_netloc u of (loc, u) \<Rightarrow>
        if (CHR ''['' \<in> set loc) \<noteq> (CHR '']'' \<in> set loc) then Inl ValueError
        else
          case split_first CHR ''#'' u of (u, frag) \<Rightarrow>
          case split_first CHR ''?'' u of (u, qu) \<Rightarrow>
          case (if sch \<in> set uses_params \<and> CHR '';'' \<in> set u
                then split_params u else (u, [])) of (u, par) \<Rightarrow>
            Inr \<lparr>scheme = sch, netloc = loc, path = u, params = par, query = qu,
                 fragment = frag\<rparr>)"

definition py_urlunparse :: "parse_result \<Rightarrow> string" where
  \<comment> \<open>Modelled from the spec: \<open>urllib.parse.urlunparse\<close> belongs to Python's standard
      library, not to this repository. The spec says that the url is what remains
      (scheme, authority, path, query) with an empty fragment; the model puts the
      components together as the library does, leaving out each empty one.\<close>
  "py_urlunparse p =
     (let u = (if params p \<noteq> [] then path p @ '';'' @ params p else path p);
          u = (if netloc p \<noteq> []
                  \<or> (scheme p \<noteq> [] \<and> scheme p \<in> set uses_netloc \<and> take 2 u \<noteq> ''//'')
               then ''//'' @ netloc p @ (if u \<noteq> [] \<and> take 1 u \<noteq> ''/'' then ''/'' @ u else u)
               else u);
          u = (if scheme p \<noteq> [] then scheme p @ '':'' @ u else u);
          u = (if query p \<noteq> [] then u @ ''?'' @ query p else u)
      in if fragment p \<noteq> [] then u @ ''#'' @ fragment p else u)"

definition hex_digit :: "char \<Rightarrow> nat option" where
  "hex_digit c =
     map_of (zip ''0123456789abcdefABCDEF''
               [0, 1, 2, 3, 4, 5, 6, 7, 8, 9, 10, 11, 12, 13, 14, 15, 10, 11, 12, 13, 14, 15]) c"

fun py_unquote :: "string \<Rightarrow> string" where
  \<comment> \<open>Modelled from the spec: \<open>urllib.parse.unquote\<close> belongs to Python's standard
      library, not to this repository. The spec says that the final path segment
      is percent-decoded: each \<open>%XX\<close> with two hexadecimal digits becomes the byte
      it names, and any other \<open>%\<close> stays. The library also replaces decoded bytes
      that are not valid UTF-8; the model does not.\<close>
  "py_unquote (c # h # l # cs) =
     (if c = CHR ''%''
      then (case (hex_digit h, hex_digit l) of
              (Some a, Some b) \<Rightarrow> char_of (16 * a + b) # py_unquote cs
            | _ \<Rightarrow> c # py_unquote (h # l # cs))
      else c # py_unquote (h # l # cs))"
| "py_unquote cs = cs"

definition charrefs :: "(string \<times> char) list" where
  "charrefs = [(''lt;'', CHR ''<''), (''gt;'', CHR ''>''), (''amp;'', CHR ''&''),
     (''quot;'', CHR 0x22)]"

fun match_charref :: "(string \<times> char) list \<Rightarrow> string \<Rightarrow> (char \<times> nat) option" where
  "match_charref [] s = None"
| "match_charref ((ref, c) # refs) s =
     (if take (length ref) s = ref then Some (c, length ref) else match_charref refs s)"

function py_unescape :: "string \<Rightarrow> string" where
  \<comment> \<open>Modelled from the spec: \<open>html.unescape\<close> belongs to Python's standard library,
      not to this repository. The spec says that the value is HTML-entity-decoded,
      so that \<open>&lt;\<close> becomes \<open><\<close> and \<open>&gt;\<close> becomes \<open>>\<close>. The model decodes the
      references \<open>&lt;\<close>, \<open>&gt;\<close>, \<open>&amp;\<close> and \<open>&quot;\<close> and keeps every other
      character; the library knows the whole HTML5 table and numeric references.\<close>
  "py_unescape [] = []"
| "py_unescape (c # cs) =
     (if c = CHR ''&''
      then (case match_charref charrefs cs of
              Some (d, n) \<Rightarrow> d # py_unescape (drop n cs)
            | None \<Rightarrow> c # py_unescape cs)
      else c # py_unescape cs)"
  by pat_completeness auto
termination
  by (relation "measure length") auto

definition py :: stdlib where
  "py = \<lparr>urlparse = py_urlparse, urlunparse = py_urlunparse, unquote = py_unquote,
         unescape = py_unescape\<rparr>"

section \<open>Vocabulary of the properties\<close>

definition href_of :: "attrs_list \<Rightarrow> string" where
  \<comment> \<open>The value of the anchor's \<open>href\<close>; empty when the attribute is missing or has
      no value.\<close>
  "href_of attrs_list =
     (case dict_of attrs_list ''href'' of Some (Some h) \<Rightarrow> h | _ \<Rightarrow> [])"

fun anchors :: "event list \<Rightarrow> attrs_list list" where
  \<comment> \<open>The attribute lists of the anchors with a non-empty \<open>href\<close>, in document order.\<close>
  "anchors [] = []"
| "anchors (StartTag tag attrs_list # evs) =
     (if tag = ''a'' \<and> href_of attrs_list \<noteq> [] then attrs_list # anchors evs else anchors evs)"
| "anchors (_ # evs) = anchors evs"




definition link_of :: "stdlib \<Rightarrow> attrs_list \<Rightarrow> parse_result \<Rightarrow> archive_link" where
  \<comment> \<open>The dictionary of an anchor whose \<open>href\<close> parses to \<open>p\<close>, field by field;
      \<open>handle_starttag_accept\<close> below proves that the handler appends it.\<close>
  "link_of L attrs_list p =
     \<lparr>link_filename = unquote L (snd (snd (rpartition CHR ''/'' (path p)))),
      link_url = urlunparse L (p\<lparr>fragment := []\<rparr>),
      link_hashes =
        (if fragment p = [] then None
         else Some (lower (takeWhile (\<lambda>x. x \<noteq> CHR ''='') (fragment p)),
                    tl (dropWhile (\<lambda>x. x \<noteq> CHR ''='') (fragment p)))),
      link_requires_python =
        (case dict_of attrs_list ''data-requires-python'' of
           Some (Some v) \<Rightarrow> (if v \<noteq> [] then Some (unescape L v) else None)
         | _ \<Rightarrow> None),
      link_gpg_sig = map_option (\<lambda>v. v = Some ''true'') (dict_of attrs_list ''data-gpg-sig''),
      link_yanked =
        map_option
          (\<lambda>v. case v of
                 Some reason \<Rightarrow> (if reason \<noteq> [] then Str reason else Bool True)
               | None \<Rightarrow> Bool True)
          (dict_of attrs_list ''data-yanked''),
      link_metadata =
        map_option
          (\<lambda>found_metadata. case found_metadata of
                 Some m \<Rightarrow>
                   (if m \<noteq> [] \<and> m \<noteq> ''true''
                    then (lower (fst (partition_str CHR ''='' m)),
                          snd (snd (partition_str CHR ''='' m)))
                    else ([], []))
               | None \<Rightarrow> ([], []))
          (dict_of attrs_list ''data-dist-info-metadata'')\<rparr>"

section \<open>Facts about the string operations\<close>

lemma find_char_None: "(find_char c s = None) = (c \<notin> set s)"
  by (induction s) (auto split: option.splits)

lemma find_char_mem: "find_char c s = Some i \<Longrightarrow> c \<in> set s"
  using find_char_None [of c s] by auto

lemma find_char_Some:
  "find_char c s = Some i \<Longrightarrow>
     take i s = takeWhile (\<lambda>x. x \<noteq> c) s \<and> drop (Suc i) s = tl (dropWhile (\<lambda>x. x \<noteq> c) s)"
  by (induction s arbitrary: i) (auto split: option.splits if_splits)

lemma takeWhile_rev_notin: "c \<notin> set s \<Longrightarrow> takeWhile (\<lambda>x. x \<noteq> c) (rev s) = rev s"
  by (auto simp: takeWhile_eq_all_conv)

lemma rfind_char_None: "(rfind_char c s = None) = (c \<notin> set s)"
  by (induction s) (auto split: option.splits)

lemma rfind_char_mem: "rfind_char c s = Some i \<Longrightarrow> c \<in> set s"
  using rfind_char_None [of c s] by auto

lemma rfind_char_Some:
  "rfind_char c s = Some i \<Longrightarrow> drop (Suc i) s = rev (takeWhile (\<lambda>x. x \<noteq> c) (rev s))"
proof (induction s arbitrary: i)
  case Nil
  then show ?case by simp
next
  case (Cons a s)
  show ?case
  proof (cases "rfind_char c s")
    case None
    then have "c \<notin> set s" by (simp add: rfind_char_None)
    then have "takeWhile (\<lambda>x. x \<noteq> c) (rev s) = rev s" by (rule takeWhile_rev_notin)
    with Cons.prems None show ?thesis
      by (auto split: if_splits simp: takeWhile_append)
  next
    case (Some j)
    then have "c \<in> set s" by (rule rfind_char_mem)
    with Cons Some show ?thesis
      by (auto simp: takeWhile_append)
  qed
qed

lemma split_once_cases:
  "split_once c s =
     (if c \<in> set s then [takeWhile (\<lambda>x. x \<noteq> c) s, tl (dropWhile (\<lambda>x. x \<noteq> c) s)] else [s])"
  by (auto simp: split_once_def find_char_None find_char_Some dest: find_char_mem
      split: option.splits)


lemma rpartition_last:
  "snd (snd (rpartition c s)) = rev (takeWhile (\<lambda>x. x \<noteq> c) (rev s))"
  by (auto simp: rpartition_def rfind_char_None rfind_char_Some takeWhile_rev_notin
      split: option.splits)



section \<open>Facts about name canonicalization\<close>

lemma lower_char_idem: "lower_char (lower_char c) = lower_char c"
  by (simp add: lower_char_def)

lemma is_separator_lower_char: "is_separator (lower_char c) = is_separator c"
  by (simp add: lower_char_def is_separator_def)

lemma lower_char_dash: "lower_char CHR ''-'' = CHR ''-''"
  by (simp add: lower_char_def)

lemma lower_idem: "lower (lower s) = lower s"
  by (simp add: lower_def lower_char_idem)


lemma regex_sub_lower:
  "canonicalize_regex_sub in_run (lower s) = lower (canonicalize_regex_sub in_run s)"
  by (induction s arbitrary: in_run)
    (simp_all add: lower_def is_separator_lower_char lower_char_dash)

lemma regex_sub_idem:
  "canonicalize_regex_sub in_run (canonicalize_regex_sub in_run s) =
     canonicalize_regex_sub in_run s"
  by (induction s arbitrary: in_run) (simp_all add: is_separator_def)

lemma canonicalize_idem: "canonicalize_name (canonicalize_name x) = canonicalize_name x"
  by (simp add: canonicalize_name_def regex_sub_lower regex_sub_idem lower_idem)

section \<open>Facts about the details parser\<close>

lemma handle_starttag_skip:
  "tag \<noteq> ''a'' \<or> href_of al = [] \<Longrightarrow> archive_handle_starttag L tag al links = Inr links"
  by (auto simp: archive_handle_starttag_def href_of_def Let_def split: option.splits)

lemma handle_starttag_accept:
  assumes "href_of al \<noteq> []"
  shows "archive_handle_starttag L ''a'' al links =
     (case urlparse L (href_of al) of
        Inl e \<Rightarrow> Inl e
      | Inr p \<Rightarrow>
          if fragment p \<noteq> [] \<and> CHR ''='' \<notin> set (fragment p) then Inl ValueError
          else Inr (links @ [link_of L al p]))"
  using assms
  by (auto simp: archive_handle_starttag_def href_of_def link_of_def split_once_cases Let_def
      split: option.splits sum.splits prod.splits)

lemma archive_feed_links:
  "archive_feed L html links = Inr out \<Longrightarrow>
     \<exists>new. out = links @ new \<and>
       list_all2
         (\<lambda>al link. \<exists>p. urlparse L (href_of al) = Inr p
            \<and> (fragment p = [] \<or> CHR ''='' \<in> set (fragment p)) \<and> link = link_of L al p)
         (anchors html) new"
proof (induction html arbitrary: links)
  case Nil
  then show ?case by simp
next
  case (Cons ev html)
  show ?case
  proof (cases "\<exists>al. ev = StartTag ''a'' al \<and> href_of al \<noteq> []")
    case True
    then obtain al where ev: "ev = StartTag ''a'' al" and href: "href_of al \<noteq> []" by blast
    from Cons.prems ev obtain links' where
      h: "archive_handle_starttag L ''a'' al links = Inr links'" and
      f: "archive_feed L html links' = Inr out"
      by (auto split: sum.splits)
    from h href obtain p where p: "urlparse L (href_of al) = Inr p"
      and w: "fragment p = [] \<or> CHR ''='' \<in> set (fragment p)"
      and l: "links' = links @ [link_of L al p]"
      by (auto simp: handle_starttag_accept split: sum.splits if_splits)
    from Cons.IH [OF f] obtain new where "out = links' @ new" and
      "list_all2
         (\<lambda>al link. \<exists>p. urlparse L (href_of al) = Inr p
            \<and> (fragment p = [] \<or> CHR ''='' \<in> set (fragment p)) \<and> link = link_of L al p)
         (anchors html) new" by blast
    with ev href p w l show ?thesis by auto
  next
    case False
    then have "archive_handle L ev links = Inr links"
      by (cases ev) (auto simp: handle_starttag_skip)
    moreover from False have "anchors (ev # html) = anchors html"
      by (cases ev) auto
    ultimately show ?thesis using Cons by auto
  qed
qed

lemma details_files:
  assumes "from_project_details_html L nm html = Inr d"
  shows "list_all2
           (\<lambda>al r. \<exists>p. urlparse L (href_of al) = Inr p
              \<and> (fragment p = [] \<or> CHR ''='' \<in> set (fragment p))
              \<and> r = file_details (link_of L al p))
           (anchors html) (files d)"
proof -
  from assms obtain links where f: "archive_feed L html [] = Inr links"
    and d: "files d = map file_details links"
    by (auto simp: from_project_details_html_def split: sum.splits)
  from archive_feed_links [OF f] have
    "list_all2
       (\<lambda>al link. \<exists>p. urlparse L (href_of al) = Inr p
          \<and> (fragment p = [] \<or> CHR ''='' \<in> set (fragment p)) \<and> link = link_of L al p)
       (anchors html) links" by simp
  then show ?thesis unfolding d
    by (simp add: list_all2_map2) (erule list_all2_mono, auto)
qed

lemma archive_feed_append:
  "archive_feed L (html1 @ html2) links =
     (case archive_feed L html1 links of
        Inl e \<Rightarrow> Inl e
      | Inr links' \<Rightarrow> archive_feed L html2 links')"
  by (induction html1 arbitrary: links) (auto split: sum.splits)

lemma details_name:
  "from_project_details_html L nm html = Inr d \<Longrightarrow> name d = canonicalize_name nm"
  by (auto simp: from_project_details_html_def split: sum.splits)

lemma archive_feed_error:
  assumes "StartTag ''a'' al \<in> set html" and "href_of al \<noteq> []"
    and "urlparse L (href_of al) = Inr p"
    and "fragment p \<noteq> []" and "CHR ''='' \<notin> set (fragment p)"
  shows "archive_feed L html links = Inl ValueError"
  using assms(1)
proof (induction html arbitrary: links)
  case Nil
  then show ?case by simp
next
  case (Cons ev html)
  show ?case
  proof (cases "archive_handle L ev links")
    case (Inl e)
    then show ?thesis by (cases e) simp
  next
    case (Inr links')
    have "ev \<noteq> StartTag ''a'' al"
    proof
      assume "ev = StartTag ''a'' al"
      with assms(2-5) have "archive_handle L ev links = Inl ValueError"
        by (simp add: handle_starttag_accept)
      with Inr show False by simp
    qed
    with Cons.prems have "StartTag ''a'' al \<in> set html" by simp
    with Cons.IH Inr show ?thesis by simp
  qed
qed

lemma file_details_filename:
  "filename (file_details (link_of L al p)) =
     unquote L (rev (takeWhile (\<lambda>x. x \<noteq> CHR ''/'') (rev (path p))))"
  by (simp add: file_details_def link_of_def Let_def rpartition_last split: option.splits)

lemma file_details_url:
  "url (file_details (link_of L al p)) = urlunparse L (p\<lparr>fragment := []\<rparr>)"
  by (simp add: file_details_def link_of_def Let_def split: option.splits)


lemma file_details_requires_python:
  "requires_python (file_details (link_of L al p)) =
     (case dict_of al ''data-requires-python'' of
        Some (Some v) \<Rightarrow> (if v = [] then None else Some (unescape L v))
      | _ \<Rightarrow> None)"
  by (simp add: file_details_def link_of_def Let_def split: option.splits)

lemma file_details_yanked:
  "yanked (file_details (link_of L al p)) =
     (case dict_of al ''data-yanked'' of
        None \<Rightarrow> None
      | Some None \<Rightarrow> Some (Bool True)
      | Some (Some reason) \<Rightarrow> (if reason = [] then Some (Bool True) else Some (Str reason)))"
  by (simp add: file_details_def link_of_def Let_def split: option.splits)

lemma file_details_gpg_sig:
  "gpg_sig (file_details (link_of L al p)) =
     map_option (\<lambda>v. v = Some ''true'') (dict_of al ''data-gpg-sig'')"
  by (simp add: file_details_def link_of_def Let_def split: option.splits)


section \<open>Facts about the index parser\<close>





section \<open>Evaluating the examples\<close>

lemmas py_eval = from_project_details_html_def archive_handle_starttag_def file_details_def
  dict_of_def py_def py_urlparse_def py_urlunparse_def split_scheme_def split_netloc_def
  split_first_def split_params_def split_once_def partition_str_def rpartition_def
  lower_def lower_char_def canonicalize_name_def is_separator_def
  ascii_letters_def scheme_chars_def uses_netloc_def uses_params_def href_of_def
  hex_digit_def charrefs_def Let_def

section \<open>The project URL\<close>

text \<open>
  Claim C3, as the code has it: \<open>create_project_url\<close> returns \<open>base_url\<close>, with one
  \<open>/\<close> appended when \<open>base_url\<close> is not empty and does not end with \<open>/\<close> and
  unchanged otherwise, followed by the canonical project name and a \<open>/\<close>. It has
  no failing path, and it maps \<open>https://example.com/simple\<close> and \<open>Holy_Grail\<close> to
  \<open>https://example.com/simple/holy-grail/\<close>.
\<close>

theorem create_project_url_result:
  "create_project_url base_url nm =
     (if base_url \<noteq> [] \<and> last base_url \<noteq> CHR ''/'' then base_url @ ''/'' else base_url)
       @ canonicalize_name nm @ ''/''
   \<and> create_project_url ''https://example.com/simple'' ''Holy_Grail'' =
       ''https://example.com/simple/holy-grail/''"
proof
  have "base_url \<noteq> [] \<Longrightarrow> endswith base_url ''/'' = (last base_url = CHR ''/'')"
    by (cases base_url rule: rev_cases) (auto simp: endswith_def)
  then show "create_project_url base_url nm =
     (if base_url \<noteq> [] \<and> last base_url \<noteq> CHR ''/'' then base_url @ ''/'' else base_url)
       @ canonicalize_name nm @ ''/''"
    by (auto simp: create_project_url_def)
  show "create_project_url ''https://example.com/simple'' ''Holy_Grail'' =
       ''https://example.com/simple/holy-grail/''"
    by (simp add: create_project_url_def endswith_def py_eval)
qed

text \<open>
  Claim C3 as stated fails: the part of the result in front of the canonical name is
  the base itself when the base is empty, and then it does not end with \<open>/\<close>; and a
  base that ends with two \<open>/\<close> keeps both.
\<close>

theorem create_project_url_counterexample:
  "create_project_url [] ''A'' = ''a/''
   \<and> canonicalize_name ''A'' = ''a''
   \<and> \<not> exactly_one_trailing_slash []
   \<and> create_project_url ''https://example.com/simple//'' ''A'' =
       ''https://example.com/simple//a/''
   \<and> \<not> exactly_one_trailing_slash ''https://example.com/simple//''"
  by (simp add: create_project_url_def endswith_def exactly_one_trailing_slash_def py_eval)

section \<open>Canonical names\<close>

text \<open>
  Claim C9: canonicalization is idempotent; the name of a parsed details page is a
  fixed point of canonicalization; and the project URL built from a canonical name is
  the one built from the original name.
\<close>

theorem canonicalize_name_idempotent:
  "canonicalize_name (canonicalize_name x) = canonicalize_name x
   \<and> (from_project_details_html L nm html = Inr d \<longrightarrow> canonicalize_name (name d) = name d)
   \<and> create_project_url base_url (canonicalize_name n) = create_project_url base_url n"
  by (auto simp: canonicalize_idem details_name create_project_url_def)

theorem canonicalize_name_idempotent_witness:
  "from_project_details_html py ''Holy_Grail'' [Data ''Links for Holy_Grail''] =
     Inr \<lparr>meta = \<lparr>api_version = ''1.0''\<rparr>, name = ''holy-grail'', files = []\<rparr>
   \<and> canonicalize_name ''holy-grail'' = ''holy-grail''
   \<and> create_project_url ''https://example.com/simple/'' ''holy-grail'' =
       create_project_url ''https://example.com/simple/'' ''Holy_Grail''"
proof -
  have h: "from_project_details_html py ''Holy_Grail'' [Data ''Links for Holy_Grail''] =
     Inr \<lparr>meta = \<lparr>api_version = ''1.0''\<rparr>, name = ''holy-grail'', files = []\<rparr>"
    by (simp add: py_eval)
  have c: "canonicalize_name ''Holy_Grail'' = ''holy-grail''"
    by (simp add: py_eval)
  from canonicalize_name_idempotent [where x = "''Holy_Grail''" and L = py
      and nm = "''Holy_Grail''" and html = "[Data ''Links for Holy_Grail'']"
      and d = "\<lparr>meta = \<lparr>api_version = ''1.0''\<rparr>, name = ''holy-grail'', files = []\<rparr>"
      and base_url = "''https://example.com/simple/''" and n = "''Holy_Grail''"] h c
  show ?thesis by simp
qed

section \<open>Malformed hash fragments\<close>

text \<open>
  Claim C1: when the document has an anchor whose non-empty \<open>href\<close> parses to a URL
  with a fragment (a non-empty one, as \<open>urlparse\<close> reports it) that has no \<open>=\<close>,
  \<open>from_project_details_html\<close> returns no result: the \<open>ValueError\<close> of the failed
  unpacking reaches the caller.
\<close>

theorem malformed_fragment_is_error:
  assumes "StartTag ''a'' al \<in> set html" and "href_of al \<noteq> []"
    and "urlparse L (href_of al) = Inr p"
    and "fragment p \<noteq> []" and "CHR ''='' \<notin> set (fragment p)"
  shows "from_project_details_html L nm html = Inl ValueError"
  using archive_feed_error [OF assms] by (simp add: from_project_details_html_def)

theorem malformed_fragment_is_error_witness:
  "map_sum id fragment (urlparse py (href_of [(''href'', Some ''foo-1.0.tar.gz#sha256'')])) =
     Inr ''sha256''
   \<and> from_project_details_html py ''foo''
       [StartTag ''a'' [(''href'', Some ''foo-1.0.tar.gz#sha256'')], Data ''foo-1.0.tar.gz'',
        EndTag ''a''] = Inl ValueError"
proof -
  let ?al = "[(''href'', Some ''foo-1.0.tar.gz#sha256'')]"
  let ?p = "\<lparr>scheme = [], netloc = [], path = ''foo-1.0.tar.gz'', params = [], query = [],
             fragment = ''sha256''\<rparr>"
  have h1: "StartTag ''a'' ?al \<in> set [StartTag ''a'' ?al, Data ''foo-1.0.tar.gz'', EndTag ''a'']"
    by simp
  have h2: "href_of ?al \<noteq> []" by (simp add: py_eval)
  have h3: "urlparse py (href_of ?al) = Inr ?p" by (simp add: py_eval)
  have h4: "fragment ?p \<noteq> []" by simp
  have h5: "CHR ''='' \<notin> set (fragment ?p)" by simp
  from malformed_fragment_is_error [OF h1 h2 h3 h4 h5, of "''foo''"] h3
  show ?thesis by simp
qed

section \<open>Which anchors become records\<close>

text \<open>
  Claim C2, as the code has it: an anchor without an \<open>href\<close>, or with an empty one,
  leaves the result as it is without that anchor, whatever its other attributes; and
  when the parse succeeds, the records correspond one to one and in order to the
  anchors with a non-empty \<open>href\<close>, each record carrying a \<open>filename\<close> (the
  percent-decoded last segment of the URL path) and a \<open>url\<close> (the URL without its
  fragment). Either string may be empty.
\<close>

theorem accepted_anchor_records:
  "(href_of al = [] \<longrightarrow>
      from_project_details_html L nm (html1 @ StartTag ''a'' al # html2) =
        from_project_details_html L nm (html1 @ html2))
   \<and> (from_project_details_html L nm html = Inr d \<longrightarrow>
        length (files d) = length (anchors html)
        \<and> list_all2
            (\<lambda>al r. \<exists>p. urlparse L (href_of al) = Inr p
               \<and> filename r = unquote L (snd (snd (rpartition CHR ''/'' (path p))))
               \<and> url r = urlunparse L (p\<lparr>fragment := []\<rparr>))
            (anchors html) (files d))"
proof (intro conjI impI)
  assume "href_of al = []"
  then show "from_project_details_html L nm (html1 @ StartTag ''a'' al # html2) =
        from_project_details_html L nm (html1 @ html2)"
    by (simp add: from_project_details_html_def archive_feed_append handle_starttag_skip
        split: sum.splits)
next
  assume r: "from_project_details_html L nm html = Inr d"
  from details_files [OF r] show "length (files d) = length (anchors html)"
    by (simp add: list_all2_lengthD)
  from details_files [OF r] show "list_all2
            (\<lambda>al r. \<exists>p. urlparse L (href_of al) = Inr p
               \<and> filename r = unquote L (snd (snd (rpartition CHR ''/'' (path p))))
               \<and> url r = urlunparse L (p\<lparr>fragment := []\<rparr>))
            (anchors html) (files d)"
    by (rule list_all2_mono) (auto simp: file_details_filename file_details_url rpartition_last)
qed

theorem accepted_anchor_records_witness:
  "href_of [(''data-requires-python'', Some ''>=3.7''), (''data-yanked'', None)] = []
   \<and> from_project_details_html py ''foo''
       ([] @ StartTag ''a'' [(''data-requires-python'', Some ''>=3.7''), (''data-yanked'', None)]
          # [StartTag ''a'' [(''href'', Some ''../../packages/foo-1.0.tar.gz'')]]) =
     from_project_details_html py ''foo''
       ([] @ [StartTag ''a'' [(''href'', Some ''../../packages/foo-1.0.tar.gz'')]])
   \<and> from_project_details_html py ''foo''
       [StartTag ''a'' [(''data-requires-python'', Some ''>=3.7''), (''data-yanked'', None)],
        StartTag ''a'' [(''href'', Some ''../../packages/foo-1.0.tar.gz'')]] =
     Inr \<lparr>meta = \<lparr>api_version = ''1.0''\<rparr>, name = ''foo'',
          files = [\<lparr>filename = ''foo-1.0.tar.gz'', url = ''../../packages/foo-1.0.tar.gz'',
                    hashes = Map.empty, requires_python = None, dist_info_metadata = None,
                    gpg_sig = None, yanked = None\<rparr>]\<rparr>"
proof -
  let ?al0 = "[(''data-requires-python'', Some ''>=3.7''), (''data-yanked'', None)]"
  let ?ev1 = "StartTag ''a'' [(''href'', Some ''../../packages/foo-1.0.tar.gz'')]"
  let ?d = "\<lparr>meta = \<lparr>api_version = ''1.0''\<rparr>, name = ''foo'',
          files = [\<lparr>filename = ''foo-1.0.tar.gz'', url = ''../../packages/foo-1.0.tar.gz'',
                    hashes = Map.empty, requires_python = None, dist_info_metadata = None,
                    gpg_sig = None, yanked = None\<rparr>]\<rparr>"
  have h1: "href_of ?al0 = []" by (simp add: py_eval)
  have h2: "from_project_details_html py ''foo'' [StartTag ''a'' ?al0, ?ev1] = Inr ?d"
    by (simp add: py_eval)
  from accepted_anchor_records [where al = ?al0 and L = py and nm = "''foo''" and ?html1.0 = "[]"
      and ?html2.0 = "[?ev1]" and html = "[StartTag ''a'' ?al0, ?ev1]" and d = ?d] h1 h2
  show ?thesis by simp
qed

text \<open>
  Claim C2 as stated fails: an \<open>href\<close> whose path ends with \<open>/\<close> gives an empty
  \<open>filename\<close>, and an \<open>href\<close> that is only a fragment gives an empty \<open>url\<close>
  as well.
\<close>

theorem accepted_anchor_fields_counterexample:
  "from_project_details_html py ''p''
     [StartTag ''a'' [(''href'', Some ''https://example.com/packages/'')],
      StartTag ''a'' [(''href'', Some ''#sha256=abc'')]] =
   Inr \<lparr>meta = \<lparr>api_version = ''1.0''\<rparr>, name = ''p'',
        files = [\<lparr>filename = [], url = ''https://example.com/packages/'',
                  hashes = Map.empty, requires_python = None, dist_info_metadata = None,
                  gpg_sig = None, yanked = None\<rparr>,
                 \<lparr>filename = [], url = [],
                  hashes = [''sha256'' \<mapsto> ''abc''], requires_python = None,
                  dist_info_metadata = None, gpg_sig = None, yanked = None\<rparr>]\<rparr>"
  by (simp add: py_eval)

section \<open>The optional fields\<close>

text \<open>
  Claim C4, as the code has it: the record of an accepted anchor has a
  \<open>requires-python\<close> field if and only if the anchor has a
  \<open>data-requires-python\<close> attribute with a non-empty value, and the field is the
  HTML-entity-decoded value; \<open>&gt;=3.7\<close> gives \<open>>=3.7\<close>.
\<close>

theorem requires_python_field:
  assumes "from_project_details_html L nm html = Inr d"
  shows "list_all2
           (\<lambda>al r. requires_python r =
              (case dict_of al ''data-requires-python'' of
                 Some (Some v) \<Rightarrow> (if v = [] then None else Some (unescape L v))
               | _ \<Rightarrow> None))
           (anchors html) (files d)"
  using details_files [OF assms]
  by (rule list_all2_mono) (auto simp: file_details_requires_python)

theorem requires_python_field_witness:
  "from_project_details_html py ''foo''
     [StartTag ''a'' [(''href'', Some ''foo-1.0.tar.gz''),
                      (''data-requires-python'', Some ''&gt;=3.7'')]] =
   Inr \<lparr>meta = \<lparr>api_version = ''1.0''\<rparr>, name = ''foo'',
        files = [\<lparr>filename = ''foo-1.0.tar.gz'', url = ''foo-1.0.tar.gz'',
                  hashes = Map.empty, requires_python = Some ''>=3.7'',
                  dist_info_metadata = None, gpg_sig = None, yanked = None\<rparr>]\<rparr>
   \<and> unescape py ''&gt;=3.7'' = ''>=3.7''"
proof -
  let ?html = "[StartTag ''a'' [(''href'', Some ''foo-1.0.tar.gz''),
                      (''data-requires-python'', Some ''&gt;=3.7'')]]"
  let ?d = "\<lparr>meta = \<lparr>api_version = ''1.0''\<rparr>, name = ''foo'',
        files = [\<lparr>filename = ''foo-1.0.tar.gz'', url = ''foo-1.0.tar.gz'',
                  hashes = Map.empty, requires_python = Some ''>=3.7'',
                  dist_info_metadata = None, gpg_sig = None, yanked = None\<rparr>]\<rparr>"
  have h: "from_project_details_html py ''foo'' ?html = Inr ?d"
    by (simp add: py_eval)
  from requires_python_field [OF h] h
  show ?thesis by (simp add: py_eval)
qed

text \<open>
  Claim C4 as stated fails: an anchor that has the attribute with an empty value, or
  without a value, gets no \<open>requires-python\<close> field.
\<close>

theorem requires_python_field_counterexample:
  "map_sum id (map requires_python \<circ> files)
     (from_project_details_html py ''foo''
        [StartTag ''a'' [(''href'', Some ''foo-1.0.tar.gz''),
                         (''data-requires-python'', Some [])],
         StartTag ''a'' [(''href'', Some ''foo-2.0.tar.gz''),
                         (''data-requires-python'', None)]]) =
   Inr [None, None]"
  by (simp add: py_eval)

text \<open>
  Claim C8: the record of an accepted anchor with a \<open>data-yanked\<close> attribute has
  \<open>yanked = True\<close> when the attribute has no value or an empty one, and the
  attribute's string otherwise; without the attribute the field is absent.
\<close>

theorem yanked_field:
  assumes "from_project_details_html L nm html = Inr d"
  shows "list_all2
           (\<lambda>al r. yanked r =
              (case dict_of al ''data-yanked'' of
                 None \<Rightarrow> None
               | Some None \<Rightarrow> Some (Bool True)
               | Some (Some reason) \<Rightarrow>
                   (if reason = [] then Some (Bool True) else Some (Str reason))))
           (anchors html) (files d)"
  using details_files [OF assms]
  by (rule list_all2_mono) (auto simp: file_details_yanked)

theorem yanked_field_witness:
  "from_project_details_html py ''foo''
     [StartTag ''a'' [(''href'', Some ''foo-1.0.tar.gz''), (''data-yanked'', None)],
      StartTag ''a'' [(''href'', Some ''foo-1.1.tar.gz''), (''data-yanked'', Some [])],
      StartTag ''a'' [(''href'', Some ''foo-1.2.tar.gz''),
                      (''data-yanked'', Some ''CVE-2021-1234'')],
      StartTag ''a'' [(''href'', Some ''foo-1.3.tar.gz'')]] =
   Inr \<lparr>meta = \<lparr>api_version = ''1.0''\<rparr>, name = ''foo'',
        files = [\<lparr>filename = ''foo-1.0.tar.gz'', url = ''foo-1.0.tar.gz'',
                  hashes = Map.empty, requires_python = None,
                  dist_info_metadata = None, gpg_sig = None,
                  yanked = Some (Bool True)\<rparr>,
                 \<lparr>filename = ''foo-1.1.tar.gz'', url = ''foo-1.1.tar.gz'',
                  hashes = Map.empty, requires_python = None,
                  dist_info_metadata = None, gpg_sig = None,
                  yanked = Some (Bool True)\<rparr>,
                 \<lparr>filename = ''foo-1.2.tar.gz'', url = ''foo-1.2.tar.gz'',
                  hashes = Map.empty, requires_python = None,
                  dist_info_metadata = None, gpg_sig = None,
                  yanked = Some (Str ''CVE-2021-1234'')\<rparr>,
                 \<lparr>filename = ''foo-1.3.tar.gz'', url = ''foo-1.3.tar.gz'',
                  hashes = Map.empty, requires_python = None,
                  dist_info_metadata = None, gpg_sig = None,
                  yanked = None\<rparr>]\<rparr>"
proof -
  let ?html = "[StartTag ''a'' [(''href'', Some ''foo-1.0.tar.gz''), (''data-yanked'', None)],
      StartTag ''a'' [(''href'', Some ''foo-1.1.tar.gz''), (''data-yanked'', Some [])],
      StartTag ''a'' [(''href'', Some ''foo-1.2.tar.gz''),
                      (''data-yanked'', Some ''CVE-2021-1234'')],
      StartTag ''a'' [(''href'', Some ''foo-1.3.tar.gz'')]]"
  let ?d = "\<lparr>meta = \<lparr>api_version = ''1.0''\<rparr>, name = ''foo'',
        files = [\<lparr>filename = ''foo-1.0.tar.gz'', url = ''foo-1.0.tar.gz'',
                  hashes = Map.empty, requires_python = None,
                  dist_info_metadata = None, gpg_sig = None,
                  yanked = Some (Bool True)\<rparr>,
                 \<lparr>filename = ''foo-1.1.tar.gz'', url = ''foo-1.1.tar.gz'',
                  hashes = Map.empty, requires_python = None,
                  dist_info_metadata = None, gpg_sig = None,
                  yanked = Some (Bool True)\<rparr>,
                 \<lparr>filename = ''foo-1.2.tar.gz'', url = ''foo-1.2.tar.gz'',
                  hashes = Map.empty, requires_python = None,
                  dist_info_metadata = None, gpg_sig = None,
                  yanked = Some (Str ''CVE-2021-1234'')\<rparr>,
                 \<lparr>filename = ''foo-1.3.tar.gz'', url = ''foo-1.3.tar.gz'',
                  hashes = Map.empty, requires_python = None,
                  dist_info_metadata = None, gpg_sig = None,
                  yanked = None\<rparr>]\<rparr>"
  have h: "from_project_details_html py ''foo'' ?html = Inr ?d"
    by (simp add: py_eval)
  from yanked_field [OF h] h
  show ?thesis by simp
qed




section \<open>URL, filename and hashes\<close>





section \<open>The index page\<close>



end
